theory Spec2Isabelle
  imports Main "HOL-Library.Word" "HOL-Library.AList"
begin

section \<open>The database handle of package mongo (lib.go)\<close>

text \<open>
  The package is a facade over the mgo driver. The driver is not part of the
  package, so it is a parameter of the model: every request the facade sends to
  the driver is appended to a log of calls, and the driver's answer is read from
  an oracle that sees the log so far. Everything else (the connectivity checks,
  the order of the requests, the errors built by the facade, the loops) is
  translated from lib.go.
\<close>

subsection \<open>Values, errors, durations\<close>

text \<open>\<open>time.Duration\<close> is a signed 64-bit count of nanoseconds.\<close>

type_synonym duration = "64 word"

definition Second :: duration where
  "Second = 1000000000"

definition defaultConTimeout :: duration where
  "defaultConTimeout = 15 * Second"

definition defaultMaxTimeMS :: duration where
  "defaultMaxTimeMS = 30 * Second"

definition errorNotConnected :: string where
  "errorNotConnected = ''DB is not connected''"

definition errorNotValid :: string where
  "errorNotValid = ''Query is not valid''"

text \<open>
  A Go \<open>error\<close> is \<open>error option\<close>, \<open>None\<close> being \<open>nil\<close>. \<open>Errorf\<close> is an
  error built by \<open>fmt.Errorf("%s", msg)\<close>, \<open>ErrNotFound\<close> is the driver's
  sentinel \<open>mgo.ErrNotFound\<close>, \<open>EngineError\<close> any other error of the driver.
\<close>

datatype error = Errorf string | ErrNotFound | EngineError string

text \<open>
  The values behind \<open>interface{}\<close>: documents, filters, identifiers and output
  targets. \<open>BsonM\<close> is a \<open>bson.M\<close>, kept as an association list.
\<close>

datatype val = Nil | Str string | Num int | Ptr nat | Slice "val list"
  | BsonM "(string \<times> val) list"

text \<open>
  A run of a function either returns or panics. The panics of the model are
  Go's own: the nil pointer dereference, raised when a method of \<open>*mgo.Session\<close>
  that reads the session is called on a nil pointer, and the index out of range
  of a slice. Panics raised inside the driver are not modelled.
\<close>

datatype panic = NilDereference | IndexOutOfRange

datatype 'a result = Return 'a | Panic panic

subsection \<open>The driver\<close>

type_synonym session = nat

record collection =
  c_session :: session
  c_database :: string
  c_name :: string

text \<open>
  A \<open>*mgo.Query\<close> as built by \<open>Find(...).Sort(...).Limit(...).Skip(...).SetMaxTime(...)\<close>:
  a field is \<open>None\<close> when its setter was not called.
\<close>

record query =
  q_collection :: collection
  q_filter :: val
  q_sort :: "string option"
  q_limit :: "int option"
  q_skip :: "int option"
  q_maxTime :: "duration option"

record pipe =
  p_collection :: collection
  p_stages :: "val list"
  p_allowDiskUse :: bool
  p_maxTime :: "duration option"

record bulk =
  b_collection :: collection
  b_unordered :: bool
  b_inserts :: "val list"

text \<open>The requests that reach the driver.\<close>

datatype call =
    DialWithTimeout string duration
  | SessionCopy session
  | SessionClose session
  | EnsureIndexKey collection "string list"
  | CollInsert collection "val list"
  | BulkRun bulk
  | QueryAll query val
  | QueryOne query val
  | QueryCount query
  | PipeAllCall pipe val
  | PipeOneCall pipe val
  | CollUpdate collection val val
  | CollUpdateAll collection val val
  | CollUpsert collection val val
  | CollRemoveAll collection val

text \<open>
  The driver's answers, each a function of the calls made so far and of the
  request: the session and error of a dial, the session a copy returns, the
  error of a request, and the number a count returns.
\<close>

record driver =
  d_dial :: "call list \<Rightarrow> string \<Rightarrow> duration \<Rightarrow> session option \<times> error option"
  d_copy :: "call list \<Rightarrow> session \<Rightarrow> session"
  d_err :: "call list \<Rightarrow> call \<Rightarrow> error option"
  d_count :: "call list \<Rightarrow> call \<Rightarrow> int"

subsection \<open>The handle\<close>

text \<open>
  \<open>type DB struct { sync.RWMutex; sess *mgo.Session; maxTimeMS time.Duration }\<close>.
  The model is sequential, so the lock has no state of its own.
\<close>

record DB =
  sess :: "session option"
  maxTimeMS :: duration

text \<open>The state a method runs in: the handle it is called on and the log of driver calls.\<close>

record world =
  handle :: DB
  calls :: "call list"

definition request :: "driver \<Rightarrow> call \<Rightarrow> world \<Rightarrow> error option \<times> world" where
  "request drv c w = (d_err drv (calls w) c, w\<lparr>calls := calls w @ [c]\<rparr>)"

definition bind :: "'a result \<times> world \<Rightarrow> ('a \<Rightarrow> world \<Rightarrow> 'b result \<times> world) \<Rightarrow> 'b result \<times> world" where
  "bind m f = (case m of (Panic p, w) \<Rightarrow> (Panic p, w) | (Return a, w) \<Rightarrow> f a w)"

text \<open>\<open>s.Copy()\<close> on a \<open>*mgo.Session\<close>: a nil receiver panics before the driver is reached.\<close>

definition Session_Copy :: "driver \<Rightarrow> session option \<Rightarrow> world \<Rightarrow> session result \<times> world" where
  "Session_Copy drv p w =
     (case p of
        None \<Rightarrow> (Panic NilDereference, w)
      | Some s \<Rightarrow> (Return (d_copy drv (calls w) s), w\<lparr>calls := calls w @ [SessionCopy s]\<rparr>))"

text \<open>\<open>s.Close()\<close> on a \<open>*mgo.Session\<close>; it returns nothing.\<close>

definition Session_Close :: "driver \<Rightarrow> session option \<Rightarrow> world \<Rightarrow> unit result \<times> world" where
  "Session_Close drv p w =
     (case p of
        None \<Rightarrow> (Panic NilDereference, w)
      | Some s \<Rightarrow> (Return (), w\<lparr>calls := calls w @ [SessionClose s]\<rparr>))"

text \<open>\<open>defer sess.Close()\<close> for the copy \<open>sess\<close>, which is never nil: runs after the result is computed.\<close>

definition deferred_Close :: "session \<Rightarrow> 'a \<times> world \<Rightarrow> 'a \<times> world" where
  "deferred_Close s r = (fst r, (snd r)\<lparr>calls := calls (snd r) @ [SessionClose s]\<rparr>)"

text \<open>\<open>sess.DB("").C(coll)\<close>\<close>

definition Session_DB_C :: "session \<Rightarrow> string \<Rightarrow> string \<Rightarrow> collection" where
  "Session_DB_C s db coll = \<lparr>c_session = s, c_database = db, c_name = coll\<rparr>"

definition Coll_Find :: "collection \<Rightarrow> val \<Rightarrow> query" where
  "Coll_Find c f = \<lparr>q_collection = c, q_filter = f, q_sort = None, q_limit = None,
     q_skip = None, q_maxTime = None\<rparr>"

definition Query_Sort :: "string \<Rightarrow> query \<Rightarrow> query" where
  "Query_Sort order q = q\<lparr>q_sort := Some order\<rparr>"

definition Query_Limit :: "int \<Rightarrow> query \<Rightarrow> query" where
  "Query_Limit n q = q\<lparr>q_limit := Some n\<rparr>"

definition Query_Skip :: "int \<Rightarrow> query \<Rightarrow> query" where
  "Query_Skip n q = q\<lparr>q_skip := Some n\<rparr>"

definition Query_SetMaxTime :: "duration \<Rightarrow> query \<Rightarrow> query" where
  "Query_SetMaxTime d q = q\<lparr>q_maxTime := Some d\<rparr>"

definition Coll_Pipe :: "collection \<Rightarrow> val list \<Rightarrow> pipe" where
  "Coll_Pipe c stages = \<lparr>p_collection = c, p_stages = stages, p_allowDiskUse = False,
     p_maxTime = None\<rparr>"

definition Pipe_AllowDiskUse :: "pipe \<Rightarrow> pipe" where
  "Pipe_AllowDiskUse p = p\<lparr>p_allowDiskUse := True\<rparr>"

definition Pipe_SetMaxTime :: "duration \<Rightarrow> pipe \<Rightarrow> pipe" where
  "Pipe_SetMaxTime d p = p\<lparr>p_maxTime := Some d\<rparr>"

subsection \<open>Constructors and connection lifecycle\<close>

definition GetDb :: DB where
  "GetDb = \<lparr>sess = None, maxTimeMS = 0\<rparr>"

definition IsConnected :: "DB \<Rightarrow> bool" where
  "IsConnected db = (sess db \<noteq> None)"

text \<open>\<open>mgo.DialWithTimeout(dsn, timeout)\<close> returns a session and an error.\<close>

definition mgo_DialWithTimeout :: "driver \<Rightarrow> string \<Rightarrow> duration \<Rightarrow> world \<Rightarrow> (session option \<times> error option) \<times> world" where
  "mgo_DialWithTimeout drv dsn timeout w =
     (d_dial drv (calls w) dsn timeout, w\<lparr>calls := calls w @ [DialWithTimeout dsn timeout]\<rparr>)"

text \<open>\<open>db.sess, err = mgo.DialWithTimeout(dsn, defaultConTimeout); return err\<close>\<close>

definition Connect :: "driver \<Rightarrow> string \<Rightarrow> world \<Rightarrow> error option \<times> world" where
  "Connect drv dsn w =
     (case mgo_DialWithTimeout drv dsn defaultConTimeout w of
        ((s, err), w1) \<Rightarrow> (err, w1\<lparr>handle := (handle w1)\<lparr>sess := s\<rparr>\<rparr>))"

definition ConnectWithTimeout :: "driver \<Rightarrow> string \<Rightarrow> duration \<Rightarrow> world \<Rightarrow> error option \<times> world" where
  "ConnectWithTimeout drv dsn timeout w =
     (let timeout = (if timeout <s Second then defaultConTimeout else timeout)
      in case mgo_DialWithTimeout drv dsn timeout w of
           ((s, err), w1) \<Rightarrow> (err, w1\<lparr>handle := (handle w1)\<lparr>sess := s\<rparr>\<rparr>))"

text \<open>The constructors build a fresh handle; only the log of calls is taken over.\<close>

definition NewConnection :: "driver \<Rightarrow> string \<Rightarrow> call list \<Rightarrow> error option \<times> world" where
  "NewConnection drv dsn cs =
     Connect drv dsn \<lparr>handle = \<lparr>sess = None, maxTimeMS = defaultMaxTimeMS\<rparr>, calls = cs\<rparr>"

definition NewConnectionWithTimeout :: "driver \<Rightarrow> string \<Rightarrow> duration \<Rightarrow> call list \<Rightarrow> error option \<times> world" where
  "NewConnectionWithTimeout drv dsn timeout cs =
     ConnectWithTimeout drv dsn timeout
       \<lparr>handle = \<lparr>sess = None, maxTimeMS = defaultMaxTimeMS\<rparr>, calls = cs\<rparr>"

definition SetMaxTimeMS :: "duration \<Rightarrow> world \<Rightarrow> world" where
  "SetMaxTimeMS d w = w\<lparr>handle := (handle w)\<lparr>maxTimeMS := d\<rparr>\<rparr>"

definition Disconnect :: "driver \<Rightarrow> world \<Rightarrow> unit result \<times> world" where
  "Disconnect drv w =
     (if IsConnected (handle w) then Session_Close drv (sess (handle w)) w
      else (Return (), w))"

subsection \<open>Index and insert operations\<close>

definition ret :: "'a \<times> world \<Rightarrow> 'a result \<times> world" where
  "ret r = (Return (fst r), snd r)"

text \<open>\<open>fmt.Errorf("%s", errorNotConnected)\<close>\<close>

definition notConnected :: "error option" where
  "notConnected = Some (Errorf errorNotConnected)"

definition CreateIndexKey :: "driver \<Rightarrow> string \<Rightarrow> string list \<Rightarrow> world \<Rightarrow> error option result \<times> world" where
  "CreateIndexKey drv coll key w =
     (if \<not> IsConnected (handle w) then (Return notConnected, w)
      else bind (Session_Copy drv (sess (handle w)) w) (\<lambda>s w.
        deferred_Close s
          (ret (request drv (EnsureIndexKey (Session_DB_C s '''' coll) key) w))))"

text \<open>The loop of \<open>CreateIndexKeys\<close>: one key at a time, leaving at the first error.\<close>

fun ensureEach :: "driver \<Rightarrow> collection \<Rightarrow> string list \<Rightarrow> world \<Rightarrow> error option \<times> world" where
  "ensureEach drv c [] w = (None, w)"
| "ensureEach drv c (key # keys) w =
     (case request drv (EnsureIndexKey c [key]) w of
        (err, w1) \<Rightarrow> if err \<noteq> None then (err, w1) else ensureEach drv c keys w1)"

definition CreateIndexKeys :: "driver \<Rightarrow> string \<Rightarrow> string list \<Rightarrow> world \<Rightarrow> error option result \<times> world" where
  "CreateIndexKeys drv coll keys w =
     (if \<not> IsConnected (handle w) then (Return notConnected, w)
      else bind (Session_Copy drv (sess (handle w)) w) (\<lambda>s w.
        deferred_Close s (ret (ensureEach drv (Session_DB_C s '''' coll) keys w))))"

definition Insert :: "driver \<Rightarrow> string \<Rightarrow> val list \<Rightarrow> world \<Rightarrow> error option result \<times> world" where
  "Insert drv coll v w =
     (if \<not> IsConnected (handle w) then (Return notConnected, w)
      else bind (Session_Copy drv (sess (handle w)) w) (\<lambda>s w.
        deferred_Close s
          (ret (request drv (CollInsert (Session_DB_C s '''' coll) v) w))))"

text \<open>\<open>bulk = C(coll).Bulk(); bulk.Unordered(); bulk.Insert(v...); _, err = bulk.Run()\<close>\<close>

definition InsertBulk :: "driver \<Rightarrow> string \<Rightarrow> val list \<Rightarrow> world \<Rightarrow> error option result \<times> world" where
  "InsertBulk drv coll v w =
     (if \<not> IsConnected (handle w) then (Return notConnected, w)
      else bind (Session_Copy drv (sess (handle w)) w) (\<lambda>s w.
        deferred_Close s
          (let bulk = \<lparr>b_collection = Session_DB_C s '''' coll, b_unordered = False,
                       b_inserts = []\<rparr>;
               bulk = bulk\<lparr>b_unordered := True\<rparr>;
               bulk = bulk\<lparr>b_inserts := b_inserts bulk @ v\<rparr>
           in ret (request drv (BulkRun bulk) w))))"

text \<open>The session is the caller's: it is neither copied nor closed.\<close>

definition InsertSess :: "driver \<Rightarrow> string \<Rightarrow> session option \<Rightarrow> val list \<Rightarrow> world \<Rightarrow> error option result \<times> world" where
  "InsertSess drv coll p v w =
     (if \<not> IsConnected (handle w) \<or> p = None then (Return notConnected, w)
      else (case p of
              None \<Rightarrow> (Panic NilDereference, w)
            | Some s \<Rightarrow> ret (request drv (CollInsert (Session_DB_C s '''' coll) v) w)))"

subsection \<open>Read and aggregate operations\<close>

text \<open>
  The loop of \<open>Find\<close>, \<open>for k, qv := range query { bsonQuery[k] = qv }\<close>; the
  argument lists the entries of the Go map in the order the loop visits them.
\<close>

fun copyQuery :: "(string \<times> val) list \<Rightarrow> (string \<times> val) list \<Rightarrow> (string \<times> val) list" where
  "copyQuery [] bsonQuery = bsonQuery"
| "copyQuery ((k, qv) # rest) bsonQuery = copyQuery rest (AList.update k qv bsonQuery)"

definition Find :: "driver \<Rightarrow> string \<Rightarrow> (string \<times> val) list \<Rightarrow> val \<Rightarrow> world \<Rightarrow> error option result \<times> world" where
  "Find drv coll query v w =
     (if \<not> IsConnected (handle w) then (Return notConnected, w)
      else bind (Session_Copy drv (sess (handle w)) w) (\<lambda>s w.
        deferred_Close s
          (let bsonQuery = copyQuery query []
           in ret (request drv
                (QueryAll (Query_SetMaxTime (maxTimeMS (handle w))
                   (Coll_Find (Session_DB_C s '''' coll) (BsonM bsonQuery))) v) w))))"

definition Pipe :: "driver \<Rightarrow> string \<Rightarrow> val list \<Rightarrow> val \<Rightarrow> world \<Rightarrow> error option result \<times> world" where
  "Pipe drv coll query v w =
     (if \<not> IsConnected (handle w) then (Return notConnected, w)
      else bind (Session_Copy drv (sess (handle w)) w) (\<lambda>s w.
        deferred_Close s
          (ret (request drv
             (PipeAllCall (Pipe_SetMaxTime (maxTimeMS (handle w))
                (Pipe_AllowDiskUse (Coll_Pipe (Session_DB_C s '''' coll) query))) v) w))))"

definition PipeOne :: "driver \<Rightarrow> string \<Rightarrow> val list \<Rightarrow> val \<Rightarrow> world \<Rightarrow> error option result \<times> world" where
  "PipeOne drv coll query v w =
     (if \<not> IsConnected (handle w) then (Return notConnected, w)
      else bind (Session_Copy drv (sess (handle w)) w) (\<lambda>s w.
        deferred_Close s
          (ret (request drv
             (PipeOneCall (Pipe_SetMaxTime (maxTimeMS (handle w))
                (Pipe_AllowDiskUse (Coll_Pipe (Session_DB_C s '''' coll) query))) v) w))))"

text \<open>\<open>FindId(id)\<close> is the driver's \<open>Find(bson.D{{"_id", id}})\<close>.\<close>

definition Coll_FindId :: "collection \<Rightarrow> val \<Rightarrow> query" where
  "Coll_FindId c ident = Coll_Find c (BsonM [(''_id'', ident)])"

definition FindByID :: "driver \<Rightarrow> string \<Rightarrow> string \<Rightarrow> val \<Rightarrow> world \<Rightarrow> bool result \<times> world" where
  "FindByID drv coll ident v w =
     (if \<not> IsConnected (handle w) then (Return False, w)
      else bind (Session_Copy drv (sess (handle w)) w) (\<lambda>s w.
        deferred_Close s
          (case request drv
                  (QueryOne (Query_SetMaxTime (maxTimeMS (handle w))
                     (Coll_FindId (Session_DB_C s '''' coll) (Str ident))) v) w of
             (err, w1) \<Rightarrow> (Return (Some ErrNotFound \<noteq> err), w1))))"

definition FindAll :: "driver \<Rightarrow> string \<Rightarrow> val \<Rightarrow> world \<Rightarrow> error option result \<times> world" where
  "FindAll drv coll v w =
     (if \<not> IsConnected (handle w) then (Return notConnected, w)
      else bind (Session_Copy drv (sess (handle w)) w) (\<lambda>s w.
        deferred_Close s
          (ret (request drv
             (QueryAll (Query_SetMaxTime (maxTimeMS (handle w))
                (Coll_Find (Session_DB_C s '''' coll) (BsonM []))) v) w))))"

definition FindWithQuery :: "driver \<Rightarrow> string \<Rightarrow> val \<Rightarrow> val \<Rightarrow> world \<Rightarrow> error option result \<times> world" where
  "FindWithQuery drv coll query v w =
     (if \<not> IsConnected (handle w) then (Return notConnected, w)
      else bind (Session_Copy drv (sess (handle w)) w) (\<lambda>s w.
        deferred_Close s
          (ret (request drv
             (QueryOne (Query_SetMaxTime (maxTimeMS (handle w))
                (Coll_Find (Session_DB_C s '''' coll) query)) v) w))))"

definition FindWithQuerySortOne :: "driver \<Rightarrow> string \<Rightarrow> val \<Rightarrow> string \<Rightarrow> val \<Rightarrow> world \<Rightarrow> error option result \<times> world" where
  "FindWithQuerySortOne drv coll query order v w =
     (if \<not> IsConnected (handle w) then (Return notConnected, w)
      else bind (Session_Copy drv (sess (handle w)) w) (\<lambda>s w.
        deferred_Close s
          (ret (request drv
             (QueryOne (Query_SetMaxTime (maxTimeMS (handle w))
                (Query_Sort order (Coll_Find (Session_DB_C s '''' coll) query))) v) w))))"

definition FindWithQuerySortAll :: "driver \<Rightarrow> string \<Rightarrow> val \<Rightarrow> string \<Rightarrow> val \<Rightarrow> world \<Rightarrow> error option result \<times> world" where
  "FindWithQuerySortAll drv coll query order v w =
     (if \<not> IsConnected (handle w) then (Return notConnected, w)
      else bind (Session_Copy drv (sess (handle w)) w) (\<lambda>s w.
        deferred_Close s
          (ret (request drv
             (QueryAll (Query_SetMaxTime (maxTimeMS (handle w))
                (Query_Sort order (Coll_Find (Session_DB_C s '''' coll) query))) v) w))))"

definition FindWithQuerySortLimitAll :: "driver \<Rightarrow> string \<Rightarrow> val \<Rightarrow> string \<Rightarrow> int \<Rightarrow> val \<Rightarrow> world \<Rightarrow> error option result \<times> world" where
  "FindWithQuerySortLimitAll drv coll query order limit v w =
     (if \<not> IsConnected (handle w) then (Return notConnected, w)
      else bind (Session_Copy drv (sess (handle w)) w) (\<lambda>s w.
        deferred_Close s
          (ret (request drv
             (QueryAll (Query_SetMaxTime (maxTimeMS (handle w))
                (Query_Limit limit
                   (Query_Sort order (Coll_Find (Session_DB_C s '''' coll) query)))) v) w))))"

definition FindWithQueryOne :: "driver \<Rightarrow> string \<Rightarrow> val \<Rightarrow> val \<Rightarrow> world \<Rightarrow> error option result \<times> world" where
  "FindWithQueryOne drv coll query v w =
     (if \<not> IsConnected (handle w) then (Return notConnected, w)
      else bind (Session_Copy drv (sess (handle w)) w) (\<lambda>s w.
        deferred_Close s
          (ret (request drv
             (QueryOne (Query_SetMaxTime (maxTimeMS (handle w))
                (Coll_Find (Session_DB_C s '''' coll) query)) v) w))))"

definition FindWithQueryAll :: "driver \<Rightarrow> string \<Rightarrow> val \<Rightarrow> val \<Rightarrow> world \<Rightarrow> error option result \<times> world" where
  "FindWithQueryAll drv coll query v w =
     (if \<not> IsConnected (handle w) then (Return notConnected, w)
      else bind (Session_Copy drv (sess (handle w)) w) (\<lambda>s w.
        deferred_Close s
          (ret (request drv
             (QueryAll (Query_SetMaxTime (maxTimeMS (handle w))
                (Coll_Find (Session_DB_C s '''' coll) query)) v) w))))"

definition FindWithQuerySortLimitOffsetAll :: "driver \<Rightarrow> string \<Rightarrow> val \<Rightarrow> string \<Rightarrow> int \<Rightarrow> int \<Rightarrow> val \<Rightarrow> world \<Rightarrow> error option result \<times> world" where
  "FindWithQuerySortLimitOffsetAll drv coll query order limit offset v w =
     (if \<not> IsConnected (handle w) then (Return notConnected, w)
      else bind (Session_Copy drv (sess (handle w)) w) (\<lambda>s w.
        deferred_Close s
          (ret (request drv
             (QueryAll (Query_SetMaxTime (maxTimeMS (handle w))
                (Query_Skip offset (Query_Limit limit
                   (Query_Sort order (Coll_Find (Session_DB_C s '''' coll) query))))) v) w))))"

text \<open>\<open>q.Count()\<close> returns a number and an error.\<close>

definition Query_Count :: "driver \<Rightarrow> query \<Rightarrow> world \<Rightarrow> (int \<times> error option) \<times> world" where
  "Query_Count drv q w =
     ((d_count drv (calls w) (QueryCount q), d_err drv (calls w) (QueryCount q)),
      w\<lparr>calls := calls w @ [QueryCount q]\<rparr>)"

text \<open>
  \<open>total *int\<close> is \<open>None\<close> for a nil pointer and \<open>Some n\<close> for a pointer to an int
  holding \<open>n\<close> (written \<open>tot\<close>); the int's content after the call is returned
  beside the error.
\<close>

definition FindWithQuerySortLimitOffsetTotalAll :: "driver \<Rightarrow> string \<Rightarrow> val \<Rightarrow> string \<Rightarrow> int \<Rightarrow> int \<Rightarrow> val \<Rightarrow> int option \<Rightarrow> world \<Rightarrow> (error option \<times> int option) result \<times> world" where
  "FindWithQuerySortLimitOffsetTotalAll drv coll query order limit offset v tot w =
     (if \<not> IsConnected (handle w) then (Return (notConnected, tot), w)
      else bind (Session_Copy drv (sess (handle w)) w) (\<lambda>s w.
        deferred_Close s
          (case (if tot \<noteq> None
                 then (case Query_Count drv (Query_SetMaxTime (maxTimeMS (handle w))
                              (Coll_Find (Session_DB_C s '''' coll) query)) w of
                         ((n, _), w1) \<Rightarrow> (Some n, w1))
                 else (tot, w)) of
             (tot, w) \<Rightarrow>
               (case request drv
                  (QueryAll (Query_SetMaxTime (maxTimeMS (handle w))
                     (Query_Skip offset (Query_Limit limit
                        (Query_Sort order (Coll_Find (Session_DB_C s '''' coll) query))))) v) w of
                  (err, w) \<Rightarrow> (Return (err, tot), w)))))"

definition Count :: "driver \<Rightarrow> string \<Rightarrow> val \<Rightarrow> world \<Rightarrow> (int \<times> error option) result \<times> world" where
  "Count drv coll query w =
     (if \<not> IsConnected (handle w) then (Return (0, notConnected), w)
      else bind (Session_Copy drv (sess (handle w)) w) (\<lambda>s w.
        deferred_Close s
          (ret (Query_Count drv (Query_SetMaxTime (maxTimeMS (handle w))
             (Coll_Find (Session_DB_C s '''' coll) query)) w))))"

subsection \<open>Update, upsert and remove operations\<close>

definition Update :: "driver \<Rightarrow> string \<Rightarrow> val \<Rightarrow> val \<Rightarrow> world \<Rightarrow> error option result \<times> world" where
  "Update drv coll ident v w =
     (if \<not> IsConnected (handle w) then (Return notConnected, w)
      else bind (Session_Copy drv (sess (handle w)) w) (\<lambda>s w.
        deferred_Close s
          (ret (request drv
             (CollUpdate (Session_DB_C s '''' coll) (BsonM [(''_id'', ident)])
                (BsonM [(''$set'', v)])) w))))"

definition UpdateWithQuery :: "driver \<Rightarrow> string \<Rightarrow> val \<Rightarrow> val \<Rightarrow> world \<Rightarrow> error option result \<times> world" where
  "UpdateWithQuery drv coll query upd w =
     (if \<not> IsConnected (handle w) then (Return notConnected, w)
      else bind (Session_Copy drv (sess (handle w)) w) (\<lambda>s w.
        deferred_Close s
          (ret (request drv (CollUpdate (Session_DB_C s '''' coll) query upd) w))))"

definition UpdateWithQueryAll :: "driver \<Rightarrow> string \<Rightarrow> val \<Rightarrow> val \<Rightarrow> world \<Rightarrow> error option result \<times> world" where
  "UpdateWithQueryAll drv coll query upd w =
     (if \<not> IsConnected (handle w) then (Return notConnected, w)
      else bind (Session_Copy drv (sess (handle w)) w) (\<lambda>s w.
        deferred_Close s
          (ret (request drv (CollUpdateAll (Session_DB_C s '''' coll) query upd) w))))"

definition Upsert :: "driver \<Rightarrow> string \<Rightarrow> val \<Rightarrow> val \<Rightarrow> world \<Rightarrow> error option result \<times> world" where
  "Upsert drv coll ident v w =
     (if \<not> IsConnected (handle w) then (Return notConnected, w)
      else bind (Session_Copy drv (sess (handle w)) w) (\<lambda>s w.
        deferred_Close s
          (ret (request drv
             (CollUpsert (Session_DB_C s '''' coll) (BsonM [(''_id'', ident)]) v) w))))"

definition UpsertWithQuery :: "driver \<Rightarrow> string \<Rightarrow> val \<Rightarrow> val \<Rightarrow> world \<Rightarrow> error option result \<times> world" where
  "UpsertWithQuery drv coll query upd w =
     (if \<not> IsConnected (handle w) then (Return notConnected, w)
      else bind (Session_Copy drv (sess (handle w)) w) (\<lambda>s w.
        deferred_Close s
          (ret (request drv (CollUpsert (Session_DB_C s '''' coll) query upd) w))))"

text \<open>
  The loop of \<open>UpsertMulti\<close>, \<open>for index < len(id) { ...Upsert(bson.M{"_id": id[index]}, v[index]); index++ }\<close>.
  The slice \<open>id\<close> is written \<open>ident\<close>. The value the upsert returns is dropped. Reading \<open>v[index]\<close> beyond the end of
  \<open>v\<close> panics before the upsert is sent.
\<close>

function upsertLoop :: "driver \<Rightarrow> collection \<Rightarrow> val list \<Rightarrow> val list \<Rightarrow> nat \<Rightarrow> world \<Rightarrow> unit result \<times> world" where
  "upsertLoop drv c ident v index w =
     (if index < length ident then
        (if index < length v then
           upsertLoop drv c ident v (index + 1)
             (snd (request drv (CollUpsert c (BsonM [(''_id'', ident ! index)]) (v ! index)) w))
         else (Panic IndexOutOfRange, w))
      else (Return (), w))"
  by pat_completeness auto
termination
  by (relation "measure (\<lambda>(drv, c, ident, v, index, w). length ident - index)") auto

text \<open>\<open>fmt.Errorf("%s", errorNotValid)\<close>\<close>

definition notValid :: "error option" where
  "notValid = Some (Errorf errorNotValid)"

definition UpsertMulti :: "driver \<Rightarrow> string \<Rightarrow> val list \<Rightarrow> val list \<Rightarrow> world \<Rightarrow> error option result \<times> world" where
  "UpsertMulti drv coll ident v w =
     (if \<not> IsConnected (handle w) then (Return notConnected, w)
      else if length ident \<noteq> length v then (Return notValid, w)
      else bind (Session_Copy drv (sess (handle w)) w) (\<lambda>s w.
        deferred_Close s
          (bind (upsertLoop drv (Session_DB_C s '''' coll) ident v 0 w) (\<lambda>_ w.
             (Return None, w)))))"

definition Remove :: "driver \<Rightarrow> string \<Rightarrow> val \<Rightarrow> world \<Rightarrow> error option result \<times> world" where
  "Remove drv coll ident w =
     (if \<not> IsConnected (handle w) then (Return notConnected, w)
      else bind (Session_Copy drv (sess (handle w)) w) (\<lambda>s w.
        deferred_Close s
          (ret (request drv
             (CollRemoveAll (Session_DB_C s '''' coll) (BsonM [(''_id'', ident)])) w))))"

text \<open>\<open>RemoveAll\<close> starts with \<open>db.sess.Copy()\<close>: there is no connectivity check before it.\<close>

definition RemoveAll :: "driver \<Rightarrow> string \<Rightarrow> world \<Rightarrow> error option result \<times> world" where
  "RemoveAll drv coll w =
     bind (Session_Copy drv (sess (handle w)) w) (\<lambda>s w.
       deferred_Close s
         (ret (request drv (CollRemoveAll (Session_DB_C s '''' coll) (BsonM [])) w)))"

definition RemoveWithQuery :: "driver \<Rightarrow> string \<Rightarrow> val \<Rightarrow> world \<Rightarrow> error option result \<times> world" where
  "RemoveWithQuery drv coll query w =
     (if \<not> IsConnected (handle w) then (Return notConnected, w)
      else bind (Session_Copy drv (sess (handle w)) w) (\<lambda>s w.
        deferred_Close s
          (ret (request drv (CollRemoveAll (Session_DB_C s '''' coll) query) w))))"

definition RemoveWithIDs :: "driver \<Rightarrow> string \<Rightarrow> val \<Rightarrow> world \<Rightarrow> error option result \<times> world" where
  "RemoveWithIDs drv coll ids w =
     (if \<not> IsConnected (handle w) then (Return notConnected, w)
      else bind (Session_Copy drv (sess (handle w)) w) (\<lambda>s w.
        deferred_Close s
          (ret (request drv
             (CollRemoveAll (Session_DB_C s '''' coll)
                (BsonM [(''_id'', BsonM [(''$in'', ids)])])) w))))"

subsection \<open>The raw session escape hatch\<close>

definition SessExec :: "driver \<Rightarrow> (session \<Rightarrow> world \<Rightarrow> unit result \<times> world) \<Rightarrow> world \<Rightarrow> unit result \<times> world" where
  "SessExec drv cb w =
     (if \<not> IsConnected (handle w) then (Return (), w)
      else bind (Session_Copy drv (sess (handle w)) w) (\<lambda>s w.
        deferred_Close s (cb s w)))"

definition SessCopy :: "driver \<Rightarrow> world \<Rightarrow> session option result \<times> world" where
  "SessCopy drv w =
     (if \<not> IsConnected (handle w) then (Return None, w)
      else bind (Session_Copy drv (sess (handle w)) w) (\<lambda>s w. (Return (Some s), w)))"

definition SessClose :: "driver \<Rightarrow> session option \<Rightarrow> world \<Rightarrow> unit result \<times> world" where
  "SessClose drv p w =
     (if \<not> IsConnected (handle w) \<or> p = None then (Return (), w)
      else Session_Close drv p w)"

subsection \<open>The operation matrix\<close>

text \<open>
  One constructor for each CRUD, query and index method of the handle, with its
  arguments, so that a statement can range over all of them; \<open>run\<close> calls the
  method.
\<close>

datatype op =
    OpCreateIndexKey string "string list"
  | OpCreateIndexKeys string "string list"
  | OpInsert string "val list"
  | OpInsertBulk string "val list"
  | OpInsertSess string "session option" "val list"
  | OpFind string "(string \<times> val) list" val
  | OpPipe string "val list" val
  | OpPipeOne string "val list" val
  | OpFindByID string string val
  | OpFindAll string val
  | OpFindWithQuery string val val
  | OpFindWithQuerySortOne string val string val
  | OpFindWithQuerySortAll string val string val
  | OpFindWithQuerySortLimitAll string val string int val
  | OpFindWithQueryOne string val val
  | OpFindWithQueryAll string val val
  | OpFindWithQuerySortLimitOffsetAll string val string int int val
  | OpFindWithQuerySortLimitOffsetTotalAll string val string int int val "int option"
  | OpCount string val
  | OpUpdate string val val
  | OpUpdateWithQuery string val val
  | OpUpdateWithQueryAll string val val
  | OpUpsert string val val
  | OpUpsertWithQuery string val val
  | OpUpsertMulti string "val list" "val list"
  | OpRemove string val
  | OpRemoveAll string
  | OpRemoveWithQuery string val
  | OpRemoveWithIDs string val

text \<open>What a method hands back: an error, a bool, a count with an error, or an error with the total.\<close>

datatype retval =
    RetErr "error option"
  | RetBool bool
  | RetCount int "error option"
  | RetTotal "error option" "int option"

definition mapResult :: "('a \<Rightarrow> 'b) \<Rightarrow> 'a result \<times> world \<Rightarrow> 'b result \<times> world" where
  "mapResult f r = (case r of (Return a, w) \<Rightarrow> (Return (f a), w) | (Panic p, w) \<Rightarrow> (Panic p, w))"

fun run :: "driver \<Rightarrow> op \<Rightarrow> world \<Rightarrow> retval result \<times> world" where
  "run drv (OpCreateIndexKey coll key) w = mapResult RetErr (CreateIndexKey drv coll key w)"
| "run drv (OpCreateIndexKeys coll keys) w = mapResult RetErr (CreateIndexKeys drv coll keys w)"
| "run drv (OpInsert coll v) w = mapResult RetErr (Insert drv coll v w)"
| "run drv (OpInsertBulk coll v) w = mapResult RetErr (InsertBulk drv coll v w)"
| "run drv (OpInsertSess coll p v) w = mapResult RetErr (InsertSess drv coll p v w)"
| "run drv (OpFind coll query v) w = mapResult RetErr (Find drv coll query v w)"
| "run drv (OpPipe coll query v) w = mapResult RetErr (Pipe drv coll query v w)"
| "run drv (OpPipeOne coll query v) w = mapResult RetErr (PipeOne drv coll query v w)"
| "run drv (OpFindByID coll ident v) w = mapResult RetBool (FindByID drv coll ident v w)"
| "run drv (OpFindAll coll v) w = mapResult RetErr (FindAll drv coll v w)"
| "run drv (OpFindWithQuery coll query v) w = mapResult RetErr (FindWithQuery drv coll query v w)"
| "run drv (OpFindWithQuerySortOne coll query order v) w =
     mapResult RetErr (FindWithQuerySortOne drv coll query order v w)"
| "run drv (OpFindWithQuerySortAll coll query order v) w =
     mapResult RetErr (FindWithQuerySortAll drv coll query order v w)"
| "run drv (OpFindWithQuerySortLimitAll coll query order limit v) w =
     mapResult RetErr (FindWithQuerySortLimitAll drv coll query order limit v w)"
| "run drv (OpFindWithQueryOne coll query v) w = mapResult RetErr (FindWithQueryOne drv coll query v w)"
| "run drv (OpFindWithQueryAll coll query v) w = mapResult RetErr (FindWithQueryAll drv coll query v w)"
| "run drv (OpFindWithQuerySortLimitOffsetAll coll query order limit offset v) w =
     mapResult RetErr (FindWithQuerySortLimitOffsetAll drv coll query order limit offset v w)"
| "run drv (OpFindWithQuerySortLimitOffsetTotalAll coll query order limit offset v tot) w =
     mapResult (\<lambda>(err, t). RetTotal err t)
       (FindWithQuerySortLimitOffsetTotalAll drv coll query order limit offset v tot w)"
| "run drv (OpCount coll query) w = mapResult (\<lambda>(n, err). RetCount n err) (Count drv coll query w)"
| "run drv (OpUpdate coll ident v) w = mapResult RetErr (Update drv coll ident v w)"
| "run drv (OpUpdateWithQuery coll query upd) w = mapResult RetErr (UpdateWithQuery drv coll query upd w)"
| "run drv (OpUpdateWithQueryAll coll query upd) w =
     mapResult RetErr (UpdateWithQueryAll drv coll query upd w)"
| "run drv (OpUpsert coll ident v) w = mapResult RetErr (Upsert drv coll ident v w)"
| "run drv (OpUpsertWithQuery coll query upd) w = mapResult RetErr (UpsertWithQuery drv coll query upd w)"
| "run drv (OpUpsertMulti coll ident v) w = mapResult RetErr (UpsertMulti drv coll ident v w)"
| "run drv (OpRemove coll ident) w = mapResult RetErr (Remove drv coll ident w)"
| "run drv (OpRemoveAll coll) w = mapResult RetErr (RemoveAll drv coll w)"
| "run drv (OpRemoveWithQuery coll query) w = mapResult RetErr (RemoveWithQuery drv coll query w)"
| "run drv (OpRemoveWithIDs coll ids) w = mapResult RetErr (RemoveWithIDs drv coll ids w)"

fun isRemoveAll :: "op \<Rightarrow> bool" where
  "isRemoveAll (OpRemoveAll coll) = True"
| "isRemoveAll _ = False"

fun isFindByID :: "op \<Rightarrow> bool" where
  "isFindByID (OpFindByID coll ident v) = True"
| "isFindByID _ = False"

text \<open>The read and aggregate methods: those that build a query or a pipe.\<close>

fun isRead :: "op \<Rightarrow> bool" where
  "isRead (OpFind coll query v) = True"
| "isRead (OpPipe coll query v) = True"
| "isRead (OpPipeOne coll query v) = True"
| "isRead (OpFindByID coll ident v) = True"
| "isRead (OpFindAll coll v) = True"
| "isRead (OpFindWithQuery coll query v) = True"
| "isRead (OpFindWithQuerySortOne coll query order v) = True"
| "isRead (OpFindWithQuerySortAll coll query order v) = True"
| "isRead (OpFindWithQuerySortLimitAll coll query order limit v) = True"
| "isRead (OpFindWithQueryOne coll query v) = True"
| "isRead (OpFindWithQueryAll coll query v) = True"
| "isRead (OpFindWithQuerySortLimitOffsetAll coll query order limit offset v) = True"
| "isRead (OpFindWithQuerySortLimitOffsetTotalAll coll query order limit offset v tot) = True"
| "isRead (OpCount coll query) = True"
| "isRead _ = False"

text \<open>The error inside a returned value; a bool carries none.\<close>

fun errorOf :: "retval \<Rightarrow> error option" where
  "errorOf (RetErr err) = err"
| "errorOf (RetBool b) = None"
| "errorOf (RetCount n err) = err"
| "errorOf (RetTotal err t) = err"

fun returnsNotConnected :: "retval result \<Rightarrow> bool" where
  "returnsNotConnected (Return rv) = (errorOf rv = notConnected)"
| "returnsNotConnected (Panic p) = False"

text \<open>The calls a run adds to the log, and the max-time bound of each query or pipe among them.\<close>

definition issued :: "driver \<Rightarrow> op \<Rightarrow> world \<Rightarrow> call list" where
  "issued drv op w = drop (length (calls w)) (calls (snd (run drv op w)))"

fun maxTimeOf :: "call \<Rightarrow> duration option list" where
  "maxTimeOf (QueryAll q v) = [q_maxTime q]"
| "maxTimeOf (QueryOne q v) = [q_maxTime q]"
| "maxTimeOf (QueryCount q) = [q_maxTime q]"
| "maxTimeOf (PipeAllCall p v) = [p_maxTime p]"
| "maxTimeOf (PipeOneCall p v) = [p_maxTime p]"
| "maxTimeOf _ = []"

definition maxTimes :: "call list \<Rightarrow> duration option list" where
  "maxTimes cs = concat (map maxTimeOf cs)"

fun countQueries :: "call list \<Rightarrow> query list" where
  "countQueries [] = []"
| "countQueries (QueryCount q # cs) = q # countQueries cs"
| "countQueries (c # cs) = countQueries cs"

subsection \<open>Drivers and states to run the model on\<close>

text \<open>
  \<open>okDriver\<close> answers every request without error: a dial gives session 1, a
  copy of session \<open>s\<close> is session \<open>s + 1\<close>, a count gives 2. \<open>failingDriver\<close>
  dials and copies in the same way and fails every request with an i/o error;
  \<open>notFoundDriver\<close> answers every request with \<open>mgo.ErrNotFound\<close>. The state
  \<open>unconnected\<close> holds a fresh handle of \<open>GetDb\<close>, \<open>connected\<close> a handle that
  owns session 1 and has the default max time.
\<close>

definition okDriver :: driver where
  "okDriver = \<lparr>d_dial = (\<lambda>cs dsn timeout. (Some 1, None)), d_copy = (\<lambda>cs s. s + 1),
     d_err = (\<lambda>cs c. None), d_count = (\<lambda>cs c. 2)\<rparr>"

definition failingDriver :: driver where
  "failingDriver = \<lparr>d_dial = (\<lambda>cs dsn timeout. (Some 1, None)), d_copy = (\<lambda>cs s. s + 1),
     d_err = (\<lambda>cs c. Some (EngineError ''i/o timeout'')), d_count = (\<lambda>cs c. 0)\<rparr>"

definition notFoundDriver :: driver where
  "notFoundDriver = \<lparr>d_dial = (\<lambda>cs dsn timeout. (Some 1, None)), d_copy = (\<lambda>cs s. s + 1),
     d_err = (\<lambda>cs c. Some ErrNotFound), d_count = (\<lambda>cs c. 0)\<rparr>"

definition unconnected :: world where
  "unconnected = \<lparr>handle = GetDb, calls = []\<rparr>"

definition connected :: world where
  "connected = \<lparr>handle = \<lparr>sess = Some 1, maxTimeMS = defaultMaxTimeMS\<rparr>, calls = []\<rparr>"

text \<open>
  A driver whose counts fail and whose other requests succeed: the failure of
  the count does not show in what the method returns.
\<close>

definition countFailingDriver :: driver where
  "countFailingDriver = \<lparr>d_dial = (\<lambda>cs dsn timeout. (Some 1, None)), d_copy = (\<lambda>cs s. s + 1),
     d_err = (\<lambda>cs c. case c of QueryCount q \<Rightarrow> Some (EngineError ''count failed'') | _ \<Rightarrow> None),
     d_count = (\<lambda>cs c. 0)\<rparr>"

section \<open>Properties\<close>

subsection \<open>Auxiliary facts\<close>

declare upsertLoop.simps [simp del]

lemmas method_defs =
  CreateIndexKey_def CreateIndexKeys_def Insert_def InsertBulk_def InsertSess_def Find_def
  Pipe_def PipeOne_def FindByID_def FindAll_def FindWithQuery_def FindWithQuerySortOne_def
  FindWithQuerySortAll_def FindWithQuerySortLimitAll_def FindWithQueryOne_def
  FindWithQueryAll_def FindWithQuerySortLimitOffsetAll_def
  FindWithQuerySortLimitOffsetTotalAll_def Count_def Update_def UpdateWithQuery_def
  UpdateWithQueryAll_def Upsert_def UpsertWithQuery_def UpsertMulti_def Remove_def
  RemoveAll_def RemoveWithQuery_def RemoveWithIDs_def

lemmas driver_defs =
  request_def bind_def ret_def Session_Copy_def deferred_Close_def Session_DB_C_def
  Coll_Find_def Coll_FindId_def Query_Sort_def Query_Limit_def Query_Skip_def
  Query_SetMaxTime_def Coll_Pipe_def Pipe_AllowDiskUse_def Pipe_SetMaxTime_def Query_Count_def

lemma Second_sint: "sint Second = 1000000000"
  by (simp add: Second_def)

lemma ensureEach_handle: "handle (snd (ensureEach drv c keys w)) = handle w"
  by (induction keys arbitrary: w) (simp_all add: request_def)

lemma upsertLoop_handle: "handle (snd (upsertLoop drv c ident v index w)) = handle w"
proof (induction drv c ident v index w rule: upsertLoop.induct)
  case (1 drv c ident v index w)
  show ?case
    using 1 by (subst upsertLoop.simps) (simp add: request_def)
qed

text \<open>
  With slices of equal length the loop never panics, and it sends one upsert for
  each index from \<open>index\<close> on, in increasing order.
\<close>

lemma upsertLoop_calls:
  "index \<le> length ident \<Longrightarrow> length ident = length v \<Longrightarrow>
     upsertLoop drv c ident v index w =
       (Return (), w\<lparr>calls := calls w @
          map (\<lambda>i. CollUpsert c (BsonM [(''_id'', ident ! i)]) (v ! i)) [index..<length ident]\<rparr>)"
proof (induction drv c ident v index w rule: upsertLoop.induct)
  case (1 drv c ident v index w)
  show ?case
  proof (cases "index < length ident")
    case True
    with 1 show ?thesis
      by (subst upsertLoop.simps) (simp add: request_def upt_conv_Cons)
  next
    case False
    with 1 show ?thesis
      by (subst upsertLoop.simps) simp
  qed
qed

lemma bind_handle:
  "(\<And>a w'. handle (snd (f a w')) = handle w') \<Longrightarrow> handle (snd (bind m f)) = handle (snd m)"
  by (cases m) (auto simp add: bind_def split: result.splits)

lemma Session_Copy_handle: "handle (snd (Session_Copy drv p w)) = handle w"
  by (simp add: Session_Copy_def split: option.splits)

lemma deferred_Close_handle: "handle (snd (deferred_Close s r)) = handle (snd r)"
  by (simp add: deferred_Close_def)

lemma request_handle: "handle (snd (request drv c w)) = handle w"
  by (simp add: request_def)

lemma Query_Count_handle: "handle (snd (Query_Count drv q w)) = handle w"
  by (simp add: Query_Count_def)

lemma mapResult_snd: "snd (mapResult f r) = snd r"
  by (cases r) (auto simp add: mapResult_def split: result.splits)

lemmas handle_simps =
  bind_handle Session_Copy_handle deferred_Close_handle request_handle Query_Count_handle
  ensureEach_handle upsertLoop_handle mapResult_snd ret_def

lemma FindByID_handle: "handle (snd (FindByID drv coll ident v w)) = handle w"
  by (auto simp add: FindByID_def driver_defs split: option.splits)

lemma FindWithQuerySortLimitOffsetTotalAll_handle:
  "handle (snd (FindWithQuerySortLimitOffsetTotalAll drv coll query order limit offset v tot w))
     = handle w"
  by (auto simp add: FindWithQuerySortLimitOffsetTotalAll_def driver_defs split: option.splits)

text \<open>No CRUD, query or index method assigns to the handle, whatever it returns.\<close>

lemma run_handle: "handle (snd (run drv op w)) = handle w"
  apply (cases op)
  apply (simp_all add: mapResult_snd FindByID_handle FindWithQuerySortLimitOffsetTotalAll_handle)
  apply (auto simp add: method_defs handle_simps Let_def)
  done

lemma run_unconnected:
  "\<not> IsConnected (handle w) \<Longrightarrow> \<not> isRemoveAll op \<Longrightarrow> \<not> isFindByID op \<Longrightarrow>
     returnsNotConnected (fst (run drv op w)) \<and> snd (run drv op w) = w"
  by (cases op) (simp_all add: method_defs mapResult_def)

text \<open>On a connected handle every read or aggregate method bounds each query and pipe it sends by the handle's budget.\<close>

lemma run_read_maxTime:
  "isRead op \<Longrightarrow> sess (handle w) = Some s \<Longrightarrow>
     set (maxTimes (issued drv op w)) = {Some (maxTimeMS (handle w))}"
  by (cases op)
     (auto simp add: issued_def maxTimes_def method_defs mapResult_def IsConnected_def driver_defs Let_def)

subsection \<open>Connection lifecycle\<close>

text \<open>
  C1. After a successful \<open>Connect\<close>, \<open>IsConnected\<close> is true; the claim goes on:
  after \<open>Disconnect\<close> it is false again, and a second \<open>Disconnect\<close> is a no-op.
  \<open>Disconnect\<close> closes the owned session and leaves the pointer in place: run on a
  fresh handle with a driver whose dial succeeds, \<open>IsConnected\<close> is still true after
  \<open>Disconnect\<close>, and a second \<open>Disconnect\<close> closes the same session once more.
\<close>

theorem Disconnect_keeps_session:
  "fst (Connect okDriver ''localhost'' unconnected) = None
   \<and> IsConnected (handle (snd (Connect okDriver ''localhost'' unconnected)))
   \<and> IsConnected (handle (snd (Disconnect okDriver (snd (Connect okDriver ''localhost'' unconnected)))))
   \<and> calls (snd (Disconnect okDriver (snd (Disconnect okDriver
        (snd (Connect okDriver ''localhost'' unconnected))))))
      = [DialWithTimeout ''localhost'' defaultConTimeout, SessionClose 1, SessionClose 1]"
  by (simp add: Connect_def mgo_DialWithTimeout_def okDriver_def unconnected_def GetDb_def
      IsConnected_def Disconnect_def Session_Close_def)

text \<open>
  C8. \<open>ConnectWithTimeout\<close> dials with the caller's timeout when it is at least one
  second, and with the default of 15 seconds when it is below one second; in both
  cases, as in \<open>Connect\<close>, the handle takes the session the dial returns and the
  dial's error is returned as it is.
\<close>

theorem ConnectWithTimeout_timeout:
  "(1000000000 \<le> sint timeout \<longrightarrow>
      ConnectWithTimeout drv dsn timeout w =
        (snd (d_dial drv (calls w) dsn timeout),
         \<lparr>handle = (handle w)\<lparr>sess := fst (d_dial drv (calls w) dsn timeout)\<rparr>,
          calls = calls w @ [DialWithTimeout dsn timeout]\<rparr>))
   \<and> (sint timeout < 1000000000 \<longrightarrow>
      ConnectWithTimeout drv dsn timeout w =
        (snd (d_dial drv (calls w) dsn 15000000000),
         \<lparr>handle = (handle w)\<lparr>sess := fst (d_dial drv (calls w) dsn 15000000000)\<rparr>,
          calls = calls w @ [DialWithTimeout dsn 15000000000]\<rparr>))
   \<and> Connect drv dsn w =
        (snd (d_dial drv (calls w) dsn 15000000000),
         \<lparr>handle = (handle w)\<lparr>sess := fst (d_dial drv (calls w) dsn 15000000000)\<rparr>,
          calls = calls w @ [DialWithTimeout dsn 15000000000]\<rparr>)"
  by (cases "d_dial drv (calls w) dsn timeout"; cases "d_dial drv (calls w) dsn 15000000000")
     (simp add: ConnectWithTimeout_def Connect_def mgo_DialWithTimeout_def word_sless_alt
       Second_sint defaultConTimeout_def Second_def)

theorem ConnectWithTimeout_timeout_witness:
  "1000000000 \<le> sint (5000000000 :: duration)
   \<and> ConnectWithTimeout okDriver ''localhost'' 5000000000 unconnected =
       (None, \<lparr>handle = \<lparr>sess = Some 1, maxTimeMS = 0\<rparr>,
               calls = [DialWithTimeout ''localhost'' 5000000000]\<rparr>)
   \<and> sint (999999999 :: duration) < 1000000000
   \<and> ConnectWithTimeout okDriver ''localhost'' 999999999 unconnected =
       (None, \<lparr>handle = \<lparr>sess = Some 1, maxTimeMS = 0\<rparr>,
               calls = [DialWithTimeout ''localhost'' 15000000000]\<rparr>)
   \<and> sint (- 1 :: duration) < 1000000000
   \<and> ConnectWithTimeout okDriver ''localhost'' (- 1) unconnected =
       Connect okDriver ''localhost'' unconnected"
  using ConnectWithTimeout_timeout [where timeout = 5000000000 and drv = okDriver
          and dsn = "''localhost''" and w = unconnected]
        ConnectWithTimeout_timeout [where timeout = 999999999 and drv = okDriver
          and dsn = "''localhost''" and w = unconnected]
        ConnectWithTimeout_timeout [where timeout = "- 1" and drv = okDriver
          and dsn = "''localhost''" and w = unconnected]
  by (simp add: okDriver_def unconnected_def GetDb_def)

subsection \<open>Connectivity checks\<close>

text \<open>
  C3, as the code has it. On an unconnected handle every CRUD, query and index
  method other than \<open>RemoveAll\<close> and \<open>FindByID\<close> returns the "DB is not connected"
  error at once: nothing is sent to the driver and the handle is unchanged.
  \<open>FindByID\<close> has a bool result and returns false, also without a call to the
  driver and with the handle unchanged.
\<close>

theorem unconnected_operations:
  "\<not> IsConnected (handle w) \<Longrightarrow>
     (\<not> isRemoveAll op \<longrightarrow> \<not> isFindByID op \<longrightarrow>
        returnsNotConnected (fst (run drv op w)) \<and> snd (run drv op w) = w)
     \<and> run drv (OpFindByID coll ident v) w = (Return (RetBool False), w)"
  using run_unconnected [of w op drv]
  by (simp add: FindByID_def mapResult_def)

theorem unconnected_operations_witness:
  "\<not> IsConnected (handle unconnected)
   \<and> \<not> isRemoveAll (OpInsert ''test'' [Slice [Str ''1'', Str ''2'']])
   \<and> \<not> isFindByID (OpInsert ''test'' [Slice [Str ''1'', Str ''2'']])
   \<and> returnsNotConnected (fst (run okDriver (OpInsert ''test'' [Slice [Str ''1'', Str ''2'']]) unconnected))
   \<and> snd (run okDriver (OpInsert ''test'' [Slice [Str ''1'', Str ''2'']]) unconnected) = unconnected
   \<and> run okDriver (OpFindByID ''test'' ''1'' (Ptr 0)) unconnected = (Return (RetBool False), unconnected)"
  using unconnected_operations [where w = unconnected and drv = okDriver
          and op = "OpInsert ''test'' [Slice [Str ''1'', Str ''2'']]"
          and coll = "''test''" and ident = "''1''" and v = "Ptr 0"]
  by (simp add: unconnected_def GetDb_def IsConnected_def)

text \<open>
  C3, as the claim states it, fails at \<open>FindByID\<close>: on an unconnected handle it is
  not \<open>RemoveAll\<close>, and what it returns is not a "DB is not connected" error.
\<close>

theorem FindByID_unconnected_counterexample:
  "\<not> IsConnected (handle unconnected)
   \<and> \<not> isRemoveAll (OpFindByID ''users'' ''a'' (Ptr 0))
   \<and> \<not> returnsNotConnected (fst (run okDriver (OpFindByID ''users'' ''a'' (Ptr 0)) unconnected))"
  by (simp add: FindByID_def mapResult_def unconnected_def GetDb_def IsConnected_def
      notConnected_def)

text \<open>
  C4. \<open>RemoveAll\<close> has no connectivity check: on an unconnected handle it goes on to
  copy the session that is not there, which panics with a nil pointer dereference
  before anything reaches the driver. It returns nothing, in particular no
  "DB is not connected" error.
\<close>

theorem RemoveAll_unconnected:
  "\<not> IsConnected (handle w) \<Longrightarrow>
     RemoveAll drv coll w = (Panic NilDereference, w)
     \<and> fst (RemoveAll drv coll w) \<noteq> Return notConnected"
  by (simp add: RemoveAll_def IsConnected_def Session_Copy_def bind_def)

theorem RemoveAll_unconnected_witness:
  "\<not> IsConnected (handle unconnected)
   \<and> RemoveAll okDriver ''users'' unconnected = (Panic NilDereference, unconnected)"
  using RemoveAll_unconnected [where w = unconnected and drv = okDriver and coll = "''users''"]
  by (simp add: unconnected_def GetDb_def IsConnected_def)

text \<open>
  C6, as the code has it. \<open>InsertSess\<close> does check the handle: with no owned
  session, or with a nil session argument, it returns the "DB is not connected"
  error and sends nothing. On a connected handle it inserts through the session
  it was given, which it neither copies nor closes.
\<close>

theorem InsertSess_checks_connection:
  "(\<not> IsConnected (handle w) \<or> p = None \<longrightarrow>
      InsertSess drv coll p v w = (Return notConnected, w))
   \<and> (IsConnected (handle w) \<longrightarrow>
      InsertSess drv coll (Some s) v w =
        (Return (d_err drv (calls w) (CollInsert \<lparr>c_session = s, c_database = '''', c_name = coll\<rparr> v)),
         w\<lparr>calls := calls w @ [CollInsert \<lparr>c_session = s, c_database = '''', c_name = coll\<rparr> v]\<rparr>))"
  by (simp add: InsertSess_def ret_def request_def Session_DB_C_def)

theorem InsertSess_checks_connection_witness:
  "\<not> IsConnected (handle unconnected)
   \<and> InsertSess okDriver ''users'' (Some 7) [Str ''doc''] unconnected = (Return notConnected, unconnected)
   \<and> IsConnected (handle connected)
   \<and> InsertSess okDriver ''users'' None [Str ''doc''] connected = (Return notConnected, connected)
   \<and> InsertSess okDriver ''users'' (Some 7) [Str ''doc''] connected =
       (Return None,
        connected\<lparr>calls := [CollInsert \<lparr>c_session = 7, c_database = '''', c_name = ''users''\<rparr> [Str ''doc'']]\<rparr>)"
  using InsertSess_checks_connection [where w = unconnected and drv = okDriver
          and coll = "''users''" and p = "Some 7" and v = "[Str ''doc'']" and s = 7]
        InsertSess_checks_connection [where w = connected and drv = okDriver
          and coll = "''users''" and p = None and v = "[Str ''doc'']" and s = 7]
  by (simp add: unconnected_def connected_def GetDb_def IsConnected_def okDriver_def)

text \<open>
  C6, as the claim states it, fails: called on a handle with no owned session,
  with a session of the caller's, \<open>InsertSess\<close> returns the "DB is not connected" error.
\<close>

theorem InsertSess_unconnected_counterexample:
  "InsertSess okDriver ''users'' (Some 7) [Str ''doc''] unconnected
     = (Return (Some (Errorf ''DB is not connected'')), unconnected)"
  by (simp add: InsertSess_def unconnected_def GetDb_def IsConnected_def notConnected_def
      errorNotConnected_def)

subsection \<open>Lookups\<close>

text \<open>
  What \<open>FindByID\<close> computes on a connected handle, for every driver: it copies
  the session, sends one lookup by \<open>_id\<close> bounded by the handle's max time, closes
  the copy, and returns whether the lookup's error differs from \<open>mgo.ErrNotFound\<close>.
\<close>

lemma FindByID_connected:
  assumes "sess (handle w) = Some s"
  shows "FindByID drv coll ident v w =
    (Return (d_err drv (calls w @ [SessionCopy s])
        (QueryOne \<lparr>q_collection = \<lparr>c_session = d_copy drv (calls w) s, c_database = '''', c_name = coll\<rparr>,
           q_filter = BsonM [(''_id'', Str ident)], q_sort = None, q_limit = None, q_skip = None,
           q_maxTime = Some (maxTimeMS (handle w))\<rparr> v) \<noteq> Some ErrNotFound),
     w\<lparr>calls := calls w @ [SessionCopy s,
        QueryOne \<lparr>q_collection = \<lparr>c_session = d_copy drv (calls w) s, c_database = '''', c_name = coll\<rparr>,
           q_filter = BsonM [(''_id'', Str ident)], q_sort = None, q_limit = None, q_skip = None,
           q_maxTime = Some (maxTimeMS (handle w))\<rparr> v,
        SessionClose (d_copy drv (calls w) s)]\<rparr>)"
  using assms by (auto simp add: FindByID_def IsConnected_def driver_defs)

text \<open>
  C2. On a connected handle \<open>FindByID\<close> is to return true iff the document was
  found, and false both when the lookup reports not-found and when it fails with
  any other error. The code returns \<open>mgo.ErrNotFound != err\<close>, which leaves the
  other errors out: run on a connected handle, a lookup that succeeds gives true
  and a lookup that reports not-found gives false, as the claim says, but a
  lookup that fails with an i/o timeout gives true, where the claim says false.
  The method's own not-connected path gives false.
\<close>

theorem FindByID_true_on_engine_error:
  "fst (request failingDriver
          (QueryOne (Query_SetMaxTime (maxTimeMS (handle connected))
             (Coll_FindId (Session_DB_C 2 '''' ''users'') (Str ''a''))) (Ptr 0))
          (connected\<lparr>calls := [SessionCopy 1]\<rparr>)) = Some (EngineError ''i/o timeout'')
   \<and> fst (FindByID failingDriver ''users'' ''a'' (Ptr 0) connected) = Return True
   \<and> fst (FindByID okDriver ''users'' ''a'' (Ptr 0) connected) = Return True
   \<and> fst (FindByID notFoundDriver ''users'' ''a'' (Ptr 0) connected) = Return False
   \<and> fst (FindByID failingDriver ''users'' ''a'' (Ptr 0) unconnected) = Return False"
  by (simp add: FindByID_def IsConnected_def driver_defs failingDriver_def okDriver_def
      notFoundDriver_def connected_def unconnected_def GetDb_def)

text \<open>
  C9. \<open>FindAll\<close> and \<open>Find\<close> with an empty filter map give the same result in every
  state: the "DB is not connected" error on an unconnected handle, and on a
  connected one a copy of the session, one fetch of all documents with the empty
  \<open>bson.M\<close> as filter, bounded by the handle's max time, and the close of the copy.
\<close>

theorem FindAll_is_Find_empty:
  "FindAll drv coll v w = Find drv coll [] v w
   \<and> (sess (handle w) = None \<longrightarrow> FindAll drv coll v w = (Return notConnected, w))
   \<and> (sess (handle w) = Some s \<longrightarrow>
        FindAll drv coll v w =
          (Return (d_err drv (calls w @ [SessionCopy s])
             (QueryAll \<lparr>q_collection = \<lparr>c_session = d_copy drv (calls w) s, c_database = '''', c_name = coll\<rparr>,
                  q_filter = BsonM [], q_sort = None, q_limit = None, q_skip = None,
                  q_maxTime = Some (maxTimeMS (handle w))\<rparr> v)),
           w\<lparr>calls := calls w @ [SessionCopy s,
             QueryAll \<lparr>q_collection = \<lparr>c_session = d_copy drv (calls w) s, c_database = '''', c_name = coll\<rparr>,
                  q_filter = BsonM [], q_sort = None, q_limit = None, q_skip = None,
                  q_maxTime = Some (maxTimeMS (handle w))\<rparr> v,
             SessionClose (d_copy drv (calls w) s)]\<rparr>))"
  by (simp add: FindAll_def Find_def IsConnected_def driver_defs)

theorem FindAll_is_Find_empty_witness:
  "sess (handle unconnected) = None
   \<and> FindAll okDriver ''users'' (Ptr 0) unconnected = Find okDriver ''users'' [] (Ptr 0) unconnected
   \<and> FindAll okDriver ''users'' (Ptr 0) unconnected = (Return notConnected, unconnected)
   \<and> sess (handle connected) = Some 1
   \<and> FindAll failingDriver ''users'' (Ptr 0) connected
       = Find failingDriver ''users'' [] (Ptr 0) connected
   \<and> FindAll failingDriver ''users'' (Ptr 0) connected =
       (Return (Some (EngineError ''i/o timeout'')),
        connected\<lparr>calls := [SessionCopy 1,
           QueryAll \<lparr>q_collection = \<lparr>c_session = 2, c_database = '''', c_name = ''users''\<rparr>,
              q_filter = BsonM [], q_sort = None, q_limit = None, q_skip = None,
              q_maxTime = Some 30000000000\<rparr> (Ptr 0),
           SessionClose 2]\<rparr>)"
proof -
  have h1: "sess (handle unconnected) = None"
    by (simp add: unconnected_def GetDb_def)
  have h2: "sess (handle connected) = Some 1"
    by (simp add: connected_def)
  note a = FindAll_is_Find_empty [where w = unconnected and drv = okDriver
      and coll = "''users''" and v = "Ptr 0" and s = 1]
  note b = FindAll_is_Find_empty [where w = connected and drv = failingDriver
      and coll = "''users''" and v = "Ptr 0" and s = 1]
  have a2: "FindAll okDriver ''users'' (Ptr 0) unconnected = (Return notConnected, unconnected)"
    using a h1 by blast
  have b2: "FindAll failingDriver ''users'' (Ptr 0) connected =
       (Return (Some (EngineError ''i/o timeout'')),
        connected\<lparr>calls := [SessionCopy 1,
           QueryAll \<lparr>q_collection = \<lparr>c_session = 2, c_database = '''', c_name = ''users''\<rparr>,
              q_filter = BsonM [], q_sort = None, q_limit = None, q_skip = None,
              q_maxTime = Some 30000000000\<rparr> (Ptr 0),
           SessionClose 2]\<rparr>)"
    using b [THEN conjunct2, THEN conjunct2, rule_format, OF h2]
    by (simp add: connected_def failingDriver_def defaultMaxTimeMS_def Second_def)
  show ?thesis
    using h1 h2 a [THEN conjunct1] b [THEN conjunct1] a2 b2 by blast
qed

subsection \<open>The query with a total\<close>

text \<open>
  C5, as the code has it. On a connected handle, with a non-nil total pointer,
  \<open>FindWithQuerySortLimitOffsetTotalAll\<close> first sends a count of the filter, with
  no sort, limit or offset and with the handle's max time applied to it, stores
  the number in the total and drops the count's error; then it sends the fetch
  with sort, limit, offset and the same max time, and returns the fetch's error.
  With a nil total pointer only the fetch is sent.
\<close>

theorem FindWithQuerySortLimitOffsetTotalAll_connected:
  assumes "sess (handle w) = Some s"
  shows "(tot \<noteq> None \<longrightarrow>
     FindWithQuerySortLimitOffsetTotalAll drv coll query order limit offset v tot w =
       (Return
          (d_err drv
             (calls w @ [SessionCopy s,
                QueryCount \<lparr>q_collection = \<lparr>c_session = d_copy drv (calls w) s, c_database = '''', c_name = coll\<rparr>,
                  q_filter = query, q_sort = None, q_limit = None, q_skip = None,
                  q_maxTime = Some (maxTimeMS (handle w))\<rparr>])
             (QueryAll \<lparr>q_collection = \<lparr>c_session = d_copy drv (calls w) s, c_database = '''', c_name = coll\<rparr>,
                  q_filter = query, q_sort = Some order, q_limit = Some limit, q_skip = Some offset,
                  q_maxTime = Some (maxTimeMS (handle w))\<rparr> v),
           Some (d_count drv (calls w @ [SessionCopy s])
             (QueryCount \<lparr>q_collection = \<lparr>c_session = d_copy drv (calls w) s, c_database = '''', c_name = coll\<rparr>,
                  q_filter = query, q_sort = None, q_limit = None, q_skip = None,
                  q_maxTime = Some (maxTimeMS (handle w))\<rparr>))),
        w\<lparr>calls := calls w @ [SessionCopy s,
             QueryCount \<lparr>q_collection = \<lparr>c_session = d_copy drv (calls w) s, c_database = '''', c_name = coll\<rparr>,
                  q_filter = query, q_sort = None, q_limit = None, q_skip = None,
                  q_maxTime = Some (maxTimeMS (handle w))\<rparr>,
             QueryAll \<lparr>q_collection = \<lparr>c_session = d_copy drv (calls w) s, c_database = '''', c_name = coll\<rparr>,
                  q_filter = query, q_sort = Some order, q_limit = Some limit, q_skip = Some offset,
                  q_maxTime = Some (maxTimeMS (handle w))\<rparr> v,
             SessionClose (d_copy drv (calls w) s)]\<rparr>))
   \<and> (tot = None \<longrightarrow>
     FindWithQuerySortLimitOffsetTotalAll drv coll query order limit offset v tot w =
       (Return
          (d_err drv (calls w @ [SessionCopy s])
             (QueryAll \<lparr>q_collection = \<lparr>c_session = d_copy drv (calls w) s, c_database = '''', c_name = coll\<rparr>,
                  q_filter = query, q_sort = Some order, q_limit = Some limit, q_skip = Some offset,
                  q_maxTime = Some (maxTimeMS (handle w))\<rparr> v),
           None),
        w\<lparr>calls := calls w @ [SessionCopy s,
             QueryAll \<lparr>q_collection = \<lparr>c_session = d_copy drv (calls w) s, c_database = '''', c_name = coll\<rparr>,
                  q_filter = query, q_sort = Some order, q_limit = Some limit, q_skip = Some offset,
                  q_maxTime = Some (maxTimeMS (handle w))\<rparr> v,
             SessionClose (d_copy drv (calls w) s)]\<rparr>))"
  using assms
  by (auto simp add: FindWithQuerySortLimitOffsetTotalAll_def IsConnected_def driver_defs)

theorem FindWithQuerySortLimitOffsetTotalAll_connected_witness:
  "sess (handle connected) = Some 1
   \<and> d_err countFailingDriver [SessionCopy 1]
        (QueryCount \<lparr>q_collection = \<lparr>c_session = 2, c_database = '''', c_name = ''users''\<rparr>,
           q_filter = BsonM [], q_sort = None, q_limit = None, q_skip = None,
           q_maxTime = Some 30000000000\<rparr>) = Some (EngineError ''count failed'')
   \<and> FindWithQuerySortLimitOffsetTotalAll countFailingDriver ''users'' (BsonM []) ''name'' 10 20
        (Ptr 0) (Some 7) connected =
       (Return (None, Some 0),
        connected\<lparr>calls := [SessionCopy 1,
           QueryCount \<lparr>q_collection = \<lparr>c_session = 2, c_database = '''', c_name = ''users''\<rparr>,
              q_filter = BsonM [], q_sort = None, q_limit = None, q_skip = None,
              q_maxTime = Some 30000000000\<rparr>,
           QueryAll \<lparr>q_collection = \<lparr>c_session = 2, c_database = '''', c_name = ''users''\<rparr>,
              q_filter = BsonM [], q_sort = Some ''name'', q_limit = Some 10, q_skip = Some 20,
              q_maxTime = Some 30000000000\<rparr> (Ptr 0),
           SessionClose 2]\<rparr>)
   \<and> FindWithQuerySortLimitOffsetTotalAll countFailingDriver ''users'' (BsonM []) ''name'' 10 20
        (Ptr 0) None connected =
       (Return (None, None),
        connected\<lparr>calls := [SessionCopy 1,
           QueryAll \<lparr>q_collection = \<lparr>c_session = 2, c_database = '''', c_name = ''users''\<rparr>,
              q_filter = BsonM [], q_sort = Some ''name'', q_limit = Some 10, q_skip = Some 20,
              q_maxTime = Some 30000000000\<rparr> (Ptr 0),
           SessionClose 2]\<rparr>)"
proof -
  have h: "sess (handle connected) = Some 1"
    by (simp add: connected_def)
  note a = FindWithQuerySortLimitOffsetTotalAll_connected [OF h, where drv = countFailingDriver
      and coll = "''users''" and query = "BsonM []" and order = "''name''" and limit = 10
      and offset = 20 and v = "Ptr 0" and tot = "Some 7"]
  note b = FindWithQuerySortLimitOffsetTotalAll_connected [OF h, where drv = countFailingDriver
      and coll = "''users''" and query = "BsonM []" and order = "''name''" and limit = 10
      and offset = 20 and v = "Ptr 0" and tot = None]
  show ?thesis
    using h a [THEN conjunct1] b [THEN conjunct2]
    by (simp add: connected_def countFailingDriver_def defaultMaxTimeMS_def Second_def)
qed

text \<open>
  C5, as the claim states it, fails where it says that no max-time budget is
  applied to the count: on a handle with the default budget of 30 seconds the one
  count that is sent carries that budget.
\<close>

theorem count_query_maxTime_counterexample:
  "map q_maxTime (countQueries (calls (snd
      (FindWithQuerySortLimitOffsetTotalAll okDriver ''users'' (BsonM []) ''name'' 10 0 (Ptr 0)
         (Some 0) connected))))
   = [Some 30000000000]"
  by (simp add: FindWithQuerySortLimitOffsetTotalAll_def IsConnected_def driver_defs
      okDriver_def connected_def defaultMaxTimeMS_def Second_def)

subsection \<open>Upserting in bulk\<close>

text \<open>
  C7. On a connected handle \<open>UpsertMulti\<close> with slices of unequal length returns
  the "Query is not valid" error and sends nothing, not even a session copy. With
  slices of equal length it copies the session, sends one upsert for each index
  in increasing order, keyed on \<open>_id\<close>, closes the copy and returns nil whatever
  the driver answered to the upserts.
\<close>

theorem UpsertMulti_connected:
  assumes "sess (handle w) = Some s"
  shows "(length ident \<noteq> length v \<longrightarrow>
            UpsertMulti drv coll ident v w = (Return (Some (Errorf ''Query is not valid'')), w))
       \<and> (length ident = length v \<longrightarrow>
            UpsertMulti drv coll ident v w =
              (Return None,
               w\<lparr>calls := calls w @ [SessionCopy s]
                  @ map (\<lambda>i. CollUpsert
                       \<lparr>c_session = d_copy drv (calls w) s, c_database = '''', c_name = coll\<rparr>
                       (BsonM [(''_id'', ident ! i)]) (v ! i)) [0..<length ident]
                  @ [SessionClose (d_copy drv (calls w) s)]\<rparr>))"
  using assms
  by (simp add: UpsertMulti_def IsConnected_def notValid_def errorNotValid_def bind_def
      Session_Copy_def deferred_Close_def Session_DB_C_def upsertLoop_calls)

theorem UpsertMulti_connected_witness:
  "sess (handle connected) = Some 1
   \<and> UpsertMulti failingDriver ''users'' [Str ''a'', Str ''b'', Str ''c''] [Num 1, Num 2] connected
       = (Return (Some (Errorf ''Query is not valid'')), connected)
   \<and> UpsertMulti failingDriver ''users'' [Str ''a'', Str ''b''] [Num 1, Num 2] connected
       = (Return None,
          connected\<lparr>calls :=
            [SessionCopy 1,
             CollUpsert \<lparr>c_session = 2, c_database = '''', c_name = ''users''\<rparr>
               (BsonM [(''_id'', Str ''a'')]) (Num 1),
             CollUpsert \<lparr>c_session = 2, c_database = '''', c_name = ''users''\<rparr>
               (BsonM [(''_id'', Str ''b'')]) (Num 2),
             SessionClose 2]\<rparr>)"
proof -
  have h: "sess (handle connected) = Some 1"
    by (simp add: connected_def)
  note a = UpsertMulti_connected [OF h, where drv = failingDriver and coll = "''users''"
      and ident = "[Str ''a'', Str ''b'', Str ''c'']" and v = "[Num 1, Num 2]"]
  note b = UpsertMulti_connected [OF h, where drv = failingDriver and coll = "''users''"
      and ident = "[Str ''a'', Str ''b'']" and v = "[Num 1, Num 2]"]
  show ?thesis
    using h a [THEN conjunct1] b [THEN conjunct2]
    by (simp add: connected_def failingDriver_def upt_conv_Cons)
qed

subsection \<open>The max-time budget of a handle\<close>

text \<open>
  C10. \<open>GetDb\<close> gives a handle whose max time is zero; \<open>NewConnection\<close> and
  \<open>NewConnectionWithTimeout\<close> give one whose max time is the default of 30
  seconds. Connecting leaves the max time as it is, and so does every CRUD, query
  and index method. So on a connected handle made by \<open>GetDb\<close> every read or
  aggregate method sends each of its queries and pipes with a max time of zero;
  after \<open>SetMaxTimeMS d\<close> they are sent with \<open>d\<close>.
\<close>

theorem GetDb_maxTime_zero:
  "maxTimeMS GetDb = 0
   \<and> maxTimeMS (handle (snd (NewConnection drv dsn cs))) = defaultMaxTimeMS
   \<and> maxTimeMS (handle (snd (NewConnectionWithTimeout drv dsn timeout cs))) = defaultMaxTimeMS
   \<and> sint defaultMaxTimeMS = 30000000000
   \<and> handle (snd (Connect drv dsn \<lparr>handle = GetDb, calls = cs\<rparr>))
       = GetDb\<lparr>sess := fst (d_dial drv cs dsn defaultConTimeout)\<rparr>
   \<and> maxTimeMS (handle (snd (ConnectWithTimeout drv dsn timeout \<lparr>handle = GetDb, calls = cs\<rparr>))) = 0
   \<and> (handle w = GetDb\<lparr>sess := Some s\<rparr> \<longrightarrow> isRead op \<longrightarrow>
        set (maxTimes (issued drv op w)) = {Some 0}
        \<and> handle (snd (run drv op w)) = GetDb\<lparr>sess := Some s\<rparr>)
   \<and> (sess (handle w) = Some s \<longrightarrow> isRead op \<longrightarrow>
        set (maxTimes (issued drv op (SetMaxTimeMS d w))) = {Some d})"
proof -
  have 1: "maxTimeMS (handle (snd (NewConnection drv dsn cs))) = defaultMaxTimeMS"
    by (simp add: NewConnection_def Connect_def mgo_DialWithTimeout_def split: prod.splits)
  have 2: "maxTimeMS (handle (snd (NewConnectionWithTimeout drv dsn timeout cs))) = defaultMaxTimeMS"
    by (simp add: NewConnectionWithTimeout_def ConnectWithTimeout_def mgo_DialWithTimeout_def
        Let_def split: prod.splits)
  have 3: "sint defaultMaxTimeMS = 30000000000"
    by (simp add: defaultMaxTimeMS_def Second_def)
  have 4: "handle (snd (Connect drv dsn \<lparr>handle = GetDb, calls = cs\<rparr>))
       = GetDb\<lparr>sess := fst (d_dial drv cs dsn defaultConTimeout)\<rparr>"
    by (simp add: Connect_def mgo_DialWithTimeout_def split: prod.splits)
  have 5: "maxTimeMS (handle (snd (ConnectWithTimeout drv dsn timeout \<lparr>handle = GetDb, calls = cs\<rparr>))) = 0"
    by (simp add: ConnectWithTimeout_def mgo_DialWithTimeout_def Let_def GetDb_def
        split: prod.splits)
  have 6: "set (maxTimes (issued drv op w)) = {Some 0}
        \<and> handle (snd (run drv op w)) = GetDb\<lparr>sess := Some s\<rparr>"
    if "handle w = GetDb\<lparr>sess := Some s\<rparr>" and "isRead op"
  proof -
    from that have "sess (handle w) = Some s" and "maxTimeMS (handle w) = 0"
      by (simp_all add: GetDb_def)
    with that show ?thesis
      using run_read_maxTime [of op w s drv] run_handle [of drv op w] by simp
  qed
  have 7: "set (maxTimes (issued drv op (SetMaxTimeMS d w))) = {Some d}"
    if "sess (handle w) = Some s" and "isRead op"
    using that run_read_maxTime [of op "SetMaxTimeMS d w" s drv]
    by (simp add: SetMaxTimeMS_def)
  show ?thesis
    using 1 2 3 4 5 6 7 by (simp add: GetDb_def)
qed

theorem GetDb_maxTime_zero_witness:
  "handle (snd (Connect okDriver ''localhost'' unconnected)) = GetDb\<lparr>sess := Some 1\<rparr>
   \<and> isRead (OpCount ''users'' (BsonM []))
   \<and> set (maxTimes (issued okDriver (OpCount ''users'' (BsonM []))
        (snd (Connect okDriver ''localhost'' unconnected)))) = {Some 0}
   \<and> set (maxTimes (issued okDriver (OpCount ''users'' (BsonM []))
        (SetMaxTimeMS 5000000000 (snd (Connect okDriver ''localhost'' unconnected)))))
       = {Some 5000000000}"
proof -
  have h: "handle (snd (Connect okDriver ''localhost'' unconnected)) = GetDb\<lparr>sess := Some 1\<rparr>"
    by (simp add: Connect_def mgo_DialWithTimeout_def okDriver_def unconnected_def)
  have r: "isRead (OpCount ''users'' (BsonM []))"
    by simp
  note a = GetDb_maxTime_zero [where w = "snd (Connect okDriver ''localhost'' unconnected)"
      and s = 1 and op = "OpCount ''users'' (BsonM [])" and drv = okDriver and d = 5000000000]
  have s: "sess (handle (snd (Connect okDriver ''localhost'' unconnected))) = Some 1"
    by (simp add: h)
  show ?thesis
    using h r s a by blast
qed

end
